theory Spec2Isabelle
  imports Main "HOL-Library.AList"
begin

section \<open>Constants of GeminiTeacher\_path.py\<close>

definition POINTS_CORRECT :: int where "POINTS_CORRECT = 10"
definition POINTS_PARTIAL :: int where "POINTS_PARTIAL = 5"
definition STREAK_BONUS_MULTIPLIER :: int where "STREAK_BONUS_MULTIPLIER = 2"
definition LEVEL_UP_THRESHOLD :: int where "LEVEL_UP_THRESHOLD = 50"
definition QUESTIONS_PER_LEVEL_UP :: int where "QUESTIONS_PER_LEVEL_UP = 5"

definition DIFFICULTY_LEVELS :: "string list" where
  "DIFFICULTY_LEVELS = [''Easy'', ''Medium'', ''Hard'']"

definition ALL_MATERIALS_SKILL_NAME :: string where
  "ALL_MATERIALS_SKILL_NAME = ''All Materials Review''"

section \<open>Strings\<close>

text \<open>
  A character of a response text is a code point below 256. On these \<open>str.lower\<close> maps
  \<open>A\<close>..\<open>Z\<close> (65..90) and the capital letters 192..214 and 216..222 to the code
  point 32 above and leaves every other character alone; the class \<open>\s\<close> of \<open>re\<close>, for
  a \<open>str\<close> pattern, holds the code points 9..13, 28..32, 133 and 160; and \<open>\d\<close> holds
  \<open>0\<close>..\<open>9\<close> (48..57).
\<close>

definition lower_char :: "char \<Rightarrow> char" where
  "lower_char c =
     (let n = (of_char c :: nat)
      in if (65 \<le> n \<and> n \<le> 90) \<or> (192 \<le> n \<and> n \<le> 214) \<or> (216 \<le> n \<and> n \<le> 222)
         then char_of (n + 32) else c)"

definition lower :: "string \<Rightarrow> string" where
  "lower s = map lower_char s"

fun startswith :: "string \<Rightarrow> string \<Rightarrow> bool" where
  "startswith s [] = True"
| "startswith [] (p # ps) = False"
| "startswith (c # cs) (p # ps) = (c = p \<and> startswith cs ps)"

definition is_space :: "char \<Rightarrow> bool" where
  "is_space c =
     (let n = (of_char c :: nat)
      in (9 \<le> n \<and> n \<le> 13) \<or> (28 \<le> n \<and> n \<le> 32) \<or> n = 133 \<or> n = 160)"

definition is_digit :: "char \<Rightarrow> bool" where
  "is_digit c = (let n = (of_char c :: nat) in 48 \<le> n \<and> n \<le> 57)"

text \<open>
  \<open>int(s)\<close> on a group matched by \<open>(\d+)\<close>. The group is a non-empty run of digits,
  so the only way \<open>int\<close> raises \<open>ValueError\<close> is CPython's limit on the length of a
  decimal string (\<open>sys.get_int_max_str_digits()\<close>, where \<open>0\<close> switches the limit off);
  \<open>None\<close> is that \<open>ValueError\<close>.
\<close>

definition digit_value :: "char \<Rightarrow> int" where
  "digit_value c = int (of_char c) - 48"

definition int_of_group :: "nat \<Rightarrow> string \<Rightarrow> int option" where
  "int_of_group max_str_digits s =
     (if s = [] \<or> \<not> list_all is_digit s then None
      else if 0 < max_str_digits \<and> max_str_digits < length s then None
      else Some (foldl (\<lambda>a c. 10 * a + digit_value c) 0 s))"

text \<open>\<open>str(i)\<close> for an integer, as the f-strings of \<open>save_config\<close> format it.\<close>

fun str_nat :: "nat \<Rightarrow> string" where
  "str_nat n =
     (if n < 10 then [char_of (48 + n)] else str_nat (n div 10) @ [char_of (48 + n mod 10)])"

definition str_int :: "int \<Rightarrow> string" where
  "str_int i = (if i < 0 then CHR ''-'' # str_nat (nat (- i)) else str_nat (nat i))"

text \<open>\<open>xs.index(x)\<close>: the first position of \<open>x\<close>; \<open>None\<close> when \<open>x not in xs\<close>.\<close>

fun list_index :: "'a list \<Rightarrow> 'a \<Rightarrow> nat option" where
  "list_index [] x = None"
| "list_index (y # ys) x =
     (if y = x then Some 0 else (case list_index ys x of None \<Rightarrow> None | Some i \<Rightarrow> Some (Suc i)))"

section \<open>REFERENCE\_REGEX\<close>

text \<open>
  \<open>REFERENCE_REGEX = re.compile(r"Reference:\s*\[?(\d+)\]?:\[?(\d+)\]?")\<close>.
  The pieces of the pattern are over disjoint sets of characters (white space, a
  bracket, digits, the colon), so a greedy piece never has to give a character back:
  matching at a position is the deterministic left-to-right scan below. It returns the
  two groups.
\<close>

definition optional_char :: "char \<Rightarrow> string \<Rightarrow> string" where
  "optional_char c s = (case s of [] \<Rightarrow> [] | x # xs \<Rightarrow> if x = c then xs else x # xs)"

definition reference_match_at :: "string \<Rightarrow> (string \<times> string) option" where
  "reference_match_at s =
     (if startswith s ''Reference:'' then
        (let s1 = dropWhile is_space (drop 10 s);
             s2 = optional_char CHR ''['' s1;
             g1 = takeWhile is_digit s2;
             s3 = optional_char CHR '']'' (dropWhile is_digit s2)
         in if g1 = [] then None
            else (case s3 of
                    [] \<Rightarrow> None
                  | c # s4 \<Rightarrow>
                      if c = CHR '':'' then
                        (let g2 = takeWhile is_digit (optional_char CHR ''['' s4)
                         in if g2 = [] then None else Some (g1, g2))
                      else None))
      else None)"

text \<open>\<open>REFERENCE_REGEX.search(text)\<close>: the match at the leftmost position that has one.\<close>

fun reference_search :: "string \<Rightarrow> (string \<times> string) option" where
  "reference_search [] = None"
| "reference_search (c # cs) =
     (case reference_match_at (c # cs) of
        Some m \<Rightarrow> Some m
      | None \<Rightarrow> reference_search cs)"


section \<open>Application state\<close>

record skill_data =
  score :: int
  streak :: int
  level :: int
  questions_answered :: int
  current_difficulty_index :: int

record reference =
  doc_index :: int
  page :: int

datatype worker = AIWorker bool | PDFUploadWorker bool

text \<open>
  The fields of \<open>StudyApp\<close> that the result and error handlers read or write. The
  dictionary \<open>skill_progress\<close> is an association list in insertion order; the argument of
  a worker is its \<open>_is_running\<close> flag. The last five fields are the state of the quiz
  widget; \<open>int_max_str_digits\<close> is the interpreter's limit used by \<open>int_of_group\<close>.
\<close>

record app_state =
  pdf_file_paths :: "string list"
  pdf_file_basenames :: "string list"
  current_skill_name :: "string option"
  current_question :: "string option"
  current_reference :: "reference option"
  skill_progress :: "(string \<times> skill_data) list"
  total_score :: int
  level_up_occurred :: bool
  worker :: "worker option"
  question_display :: string
  feedback_display :: string
  feedback_style :: string
  view_reference_button_enabled :: bool
  buttons_state :: string
  answer_entry_enabled :: bool
  int_max_str_digits :: nat

text \<open>
  A slot either returns, or raises out of the handler with the state as it was mutated
  up to the raise.
\<close>

datatype py_error = IndexError

datatype slot_result = Returned app_state | Raised py_error app_state

fun state_of :: "slot_result \<Rightarrow> app_state" where
  "state_of (Returned st) = st"
| "state_of (Raised e st) = st"

section \<open>Access to the current skill's data\<close>

definition is_all_materials_mode :: "app_state \<Rightarrow> bool" where
  "is_all_materials_mode st = (current_skill_name st = Some ALL_MATERIALS_SKILL_NAME)"

definition default_skill_data :: skill_data where
  "default_skill_data =
     \<lparr>score = 0, streak = 0, level = 1, questions_answered = 0, current_difficulty_index = 0\<rparr>"

text \<open>
  \<open>_get_current_skill_data\<close> returns the dictionary stored in \<open>skill_progress\<close> itself
  when the current skill is an individual skill with an entry, and a fresh default
  dictionary otherwise. \<open>has_stored_skill_data\<close> is the condition of its first branch.
\<close>

definition has_stored_skill_data :: "app_state \<Rightarrow> bool" where
  "has_stored_skill_data st =
     (case current_skill_name st of
        None \<Rightarrow> False
      | Some n \<Rightarrow> n \<noteq> [] \<and> n \<noteq> ALL_MATERIALS_SKILL_NAME \<and> map_of (skill_progress st) n \<noteq> None)"

definition get_current_skill_data :: "app_state \<Rightarrow> skill_data" where
  "get_current_skill_data st =
     (case current_skill_name st of
        None \<Rightarrow> default_skill_data
      | Some n \<Rightarrow>
          if n \<noteq> [] \<and> n \<noteq> ALL_MATERIALS_SKILL_NAME then
            (case map_of (skill_progress st) n of
               Some d \<Rightarrow> d
             | None \<Rightarrow> default_skill_data)
          else default_skill_data)"

text \<open>
  An item assignment such as \<open>skill_data['streak'] += 1\<close> on the dictionary that
  \<open>_get_current_skill_data\<close> returned: it changes \<open>skill_progress\<close> when that
  dictionary is the stored one, and is lost with the fresh default otherwise.
\<close>

definition assign_in_place :: "app_state \<Rightarrow> skill_data \<Rightarrow> app_state" where
  "assign_in_place st d =
     (case current_skill_name st of
        None \<Rightarrow> st
      | Some n \<Rightarrow>
          if has_stored_skill_data st
          then st\<lparr>skill_progress := AList.update n d (skill_progress st)\<rparr>
          else st)"

definition recalculate_total_score :: "app_state \<Rightarrow> app_state" where
  "recalculate_total_score st =
     st\<lparr>total_score :=
          sum_list (map (\<lambda>(name, d). score d)
                        (filter (\<lambda>(name, d). name \<noteq> ALL_MATERIALS_SKILL_NAME) (skill_progress st)))\<rparr>"

text \<open>
  \<open>_update_current_skill_data\<close>. The header, the skill path display and the call of
  \<open>save_config\<close> that follow the assignment read the state and do not change it.
\<close>

definition update_current_skill_data :: "app_state \<Rightarrow> skill_data \<Rightarrow> app_state" where
  "update_current_skill_data st d =
     (case current_skill_name st of
        None \<Rightarrow> st
      | Some n \<Rightarrow>
          if n \<noteq> [] \<and> n \<noteq> ALL_MATERIALS_SKILL_NAME
          then recalculate_total_score (st\<lparr>skill_progress := AList.update n d (skill_progress st)\<rparr>)
          else st)"

section \<open>save\_config: the Progress section\<close>

definition progress_line :: "skill_data \<Rightarrow> string" where
  "progress_line d =
     ''score='' @ str_int (score d) @ '',streak='' @ str_int (streak d)
     @ '',level='' @ str_int (level d) @ '',answered='' @ str_int (questions_answered d)
     @ '',diff_idx='' @ str_int (current_difficulty_index d)"

text \<open>
  The option names and values that \<open>save_config\<close> assigns to \<open>config['Progress']\<close>, in
  the order of the loop over \<open>skill_progress.items()\<close>.
\<close>

definition save_config_progress :: "app_state \<Rightarrow> (string \<times> string) list" where
  "save_config_progress st =
     map (\<lambda>(skill_name, d). (skill_name, progress_line d))
         (filter (\<lambda>(skill_name, d). skill_name \<noteq> ALL_MATERIALS_SKILL_NAME) (skill_progress st))"

section \<open>Quiz widget\<close>

definition set_feedback :: "app_state \<Rightarrow> string \<Rightarrow> string \<Rightarrow> app_state" where
  "set_feedback st text feedback_type = st\<lparr>feedback_display := text, feedback_style := feedback_type\<rparr>"

definition set_buttons_state :: "app_state \<Rightarrow> string \<Rightarrow> app_state" where
  "set_buttons_state st state =
     st\<lparr>buttons_state := state, answer_entry_enabled := (state = ''question'')\<rparr>"

section \<open>display\_feedback\<close>

text \<open>
  Python's \<open>xs[i]\<close> raises \<open>IndexError\<close> unless \<open>-len(xs) \<le> i < len(xs)\<close>.
\<close>

definition index_in_range :: "'a list \<Rightarrow> int \<Rightarrow> bool" where
  "index_in_range xs i = (- int (length xs) \<le> i \<and> i < int (length xs))"

text \<open>
  The \<open>try\<close> block of \<open>display_feedback\<close> catches \<open>ValueError\<close> and \<open>IndexError\<close>: a
  group that \<open>int\<close> rejects leaves the state as it is after the reset. The
  \<open>print\<close> after the two assignments may raise \<open>IndexError\<close>, which is caught too and
  changes nothing.
\<close>

definition display_feedback :: "app_state \<Rightarrow> string \<Rightarrow> string \<Rightarrow> app_state" where
  "display_feedback st text feedback_type =
     (let st1 = set_feedback (st\<lparr>current_reference := None, view_reference_button_enabled := False\<rparr>)
                  text feedback_type
      in case reference_search text of
           None \<Rightarrow> st1
         | Some (g1, g2) \<Rightarrow>
             (case int_of_group (int_max_str_digits st1) g1 of
                None \<Rightarrow> st1
              | Some doc_index_from_ai \<Rightarrow>
                  (case int_of_group (int_max_str_digits st1) g2 of
                     None \<Rightarrow> st1
                   | Some page_num \<Rightarrow>
                       (let actual_doc_index =
                              (if is_all_materials_mode st1 then doc_index_from_ai
                               else (case current_skill_name st1 of
                                       None \<Rightarrow> - 1
                                     | Some n \<Rightarrow>
                                         (case list_index (pdf_file_basenames st1) n of
                                            None \<Rightarrow> - 1
                                          | Some i \<Rightarrow> int i)))
                        in if 0 \<le> actual_doc_index
                              \<and> actual_doc_index < int (length (pdf_file_paths st1))
                           then st1\<lparr>current_reference :=
                                      Some \<lparr>doc_index = actual_doc_index, page = page_num\<rparr>,
                                    view_reference_button_enabled := True\<rparr>
                           else st1))))"

section \<open>\_handle\_ai\_result\<close>

text \<open>The locals set by the chain of status tests.\<close>

record grade_locals =
  feedback_type :: string
  points_earned :: int
  streak_broken :: bool

text \<open>The \<open>if\<close>/\<open>elif\<close> chain on \<open>feedback_lower\<close> (source lines 1727 to 1751).\<close>

definition status_branch :: "app_state \<Rightarrow> string \<Rightarrow> grade_locals \<times> app_state" where
  "status_branch st feedback_lower =
     (if startswith feedback_lower ''status: correct'' then
        (if \<not> is_all_materials_mode st then
           (let skill_data0 = get_current_skill_data st;
                skill_data1 = skill_data0\<lparr>streak := streak skill_data0 + 1\<rparr>;
                bonus = streak skill_data1 * STREAK_BONUS_MULTIPLIER
            in (\<lparr>feedback_type = ''correct'', points_earned = POINTS_CORRECT + bonus,
                 streak_broken = False\<rparr>,
                assign_in_place st skill_data1))
         else (\<lparr>feedback_type = ''correct'', points_earned = POINTS_CORRECT,
                streak_broken = False\<rparr>, st))
      else if startswith feedback_lower ''status: partially correct'' then
        (\<lparr>feedback_type = ''partial'', points_earned = POINTS_PARTIAL, streak_broken = True\<rparr>, st)
      else if startswith feedback_lower ''status: incorrect'' then
        (\<lparr>feedback_type = ''incorrect'', points_earned = 0, streak_broken = True\<rparr>, st)
      else (\<lparr>feedback_type = ''default'', points_earned = 0, streak_broken = True\<rparr>, st))"

text \<open>
  The update of the skill data for an individual skill (source lines 1755 to 1777). The
  \<open>print\<close> after the difficulty increment indexes \<open>DIFFICULTY_LEVELS\<close> with the new
  index; when that raises, the assignments made so far stay and the rest is skipped.
\<close>

definition update_skill :: "app_state \<Rightarrow> grade_locals \<Rightarrow> slot_result" where
  "update_skill st g =
     (let d0 = get_current_skill_data st;
          d1 = d0\<lparr>score := score d0 + points_earned g\<rparr>;
          d2 = d1\<lparr>questions_answered := questions_answered d1 + 1\<rparr>;
          d3 = (if streak_broken g then d2\<lparr>streak := 0\<rparr> else d2);
          answered_count = questions_answered d3;
          current_diff_idx = current_difficulty_index d3;
          increase = (answered_count > 0 \<and> answered_count mod QUESTIONS_PER_LEVEL_UP = 0
                      \<and> points_earned g > 0
                      \<and> current_diff_idx < int (length DIFFICULTY_LEVELS) - 1);
          d4 = (if increase then d3\<lparr>current_difficulty_index := current_difficulty_index d3 + 1\<rparr>
                else d3)
      in if increase \<and> \<not> index_in_range DIFFICULTY_LEVELS (current_difficulty_index d4)
         then Raised IndexError (assign_in_place st d4)
         else
           (let new_level = 1 + score d4 div LEVEL_UP_THRESHOLD;
                d5 = (if new_level > level d4 then d4\<lparr>level := new_level\<rparr> else d4);
                st1 = (assign_in_place st d5)
                        \<lparr>level_up_occurred := (new_level > level d4 \<or> level_up_occurred st)\<rparr>
            in Returned (update_current_skill_data st1 d5)))"

text \<open>The branch for \<open>task_identifier == "submit_answer"\<close>.\<close>

definition handle_submit_answer :: "app_state \<Rightarrow> string \<Rightarrow> slot_result" where
  "handle_submit_answer st result_text =
     (let feedback_lower = lower result_text;
          st0 = st\<lparr>level_up_occurred := False\<rparr>;
          (g, st1) = status_branch st0 feedback_lower;
          r = (if \<not> is_all_materials_mode st1 then update_skill st1 g else Returned st1)
      in case r of
           Raised e st2 \<Rightarrow> Raised e st2
         | Returned st2 \<Rightarrow>
             Returned (set_buttons_state
                         ((display_feedback st2 result_text (feedback_type g))
                            \<lparr>current_question := None\<rparr>)
                         ''feedback''))"

definition ai_worker_running :: "app_state \<Rightarrow> bool" where
  "ai_worker_running st =
     (case worker st of Some (AIWorker running) \<Rightarrow> running | _ \<Rightarrow> False)"

definition handle_ai_result :: "app_state \<Rightarrow> string \<Rightarrow> string \<Rightarrow> slot_result" where
  "handle_ai_result st task_identifier result_text =
     (if \<not> ai_worker_running st then Returned st
      else if task_identifier = ''next_question'' then
        (let st1 = st\<lparr>current_question := Some result_text, question_display := result_text\<rparr>;
             idx = current_difficulty_index (get_current_skill_data st1)
         in if \<not> is_all_materials_mode st1 \<and> \<not> index_in_range DIFFICULTY_LEVELS idx
            then Raised IndexError st1
            else
              (let difficulty_text =
                     (if \<not> is_all_materials_mode st1
                      then '' ('' @ DIFFICULTY_LEVELS ! nat (idx mod int (length DIFFICULTY_LEVELS)) @ '')''
                      else [])
               in Returned (set_buttons_state
                              (set_feedback st1
                                 (''New question'' @ difficulty_text @ ''. Enter your answer.'')
                                 ''default'')
                              ''question'')))
      else if task_identifier = ''get_guidance'' then
        Returned (set_buttons_state
                    (display_feedback st (''Hint:'' @ [CHR 0x0A] @ result_text) ''default'')
                    ''question'')
      else if task_identifier = ''submit_answer'' then handle_submit_answer st result_text
      else
        (let st1 = set_feedback st
                     (''Result for unknown task '' @ [CHR 0x27] @ task_identifier @ [CHR 0x27]
                      @ '':'' @ [CHR 0x0A] @ result_text)
                     ''default''
         in Returned (set_buttons_state st1
                        (if current_question st1 \<noteq> None \<and> current_question st1 \<noteq> Some []
                         then ''question'' else ''initial''))))"

section \<open>\_handle\_ai\_error\<close>

definition handle_ai_error :: "app_state \<Rightarrow> string \<Rightarrow> string \<Rightarrow> app_state" where
  "handle_ai_error st task_identifier error_message =
     (case worker st of
        Some (AIWorker running) \<Rightarrow>
          (let st1 = display_feedback st
                       (''Error during '' @ [CHR 0x27] @ task_identifier @ [CHR 0x27] @ '': ''
                        @ error_message)
                       ''incorrect''
           in if task_identifier = ''next_question'' then
                set_buttons_state
                  (st1\<lparr>current_question := None,
                       question_display :=
                         ''Error generating question. Click '' @ [CHR 0x27] @ ''Next''
                         @ [CHR 0x27] @ '' to try again.''\<rparr>)
                  ''initial''
              else if task_identifier = ''get_guidance'' then set_buttons_state st1 ''question''
              else if task_identifier = ''submit_answer'' then
                set_buttons_state (st1\<lparr>answer_entry_enabled := True\<rparr>) ''question''
              else st1)
      | _ \<Rightarrow> st)"

section \<open>Successive graded answers\<close>

text \<open>
  The handler run on a sequence of responses to submitted answers, one after the other,
  each on the state the previous one left.
\<close>

fun grade_all :: "app_state \<Rightarrow> string list \<Rightarrow> app_state" where
  "grade_all st [] = st"
| "grade_all st (t # ts) = grade_all (state_of (handle_ai_result st ''submit_answer'' t)) ts"

text \<open>
  The locals \<open>feedback_type\<close>, \<open>points_earned\<close> and \<open>streak_broken\<close> of the
  \<open>submit_answer\<close> branch once the chain of status tests is through.
\<close>

definition grade_of :: "app_state \<Rightarrow> string \<Rightarrow> grade_locals" where
  "grade_of st result_text =
     fst (status_branch (st\<lparr>level_up_occurred := False\<rparr>) (lower result_text))"

section \<open>Example states\<close>

text \<open>
  Three documents, the quiz on \<open>b.pdf\<close> with four answered questions, and an AI worker
  that is running.
\<close>

definition example_skill :: skill_data where
  "example_skill =
     \<lparr>score = 0, streak = 0, level = 1, questions_answered = 4, current_difficulty_index = 0\<rparr>"

definition example_state :: app_state where
  "example_state =
     \<lparr>pdf_file_paths = [''/docs/a.pdf'', ''/docs/b.pdf'', ''/docs/c.pdf''],
      pdf_file_basenames = [''a.pdf'', ''b.pdf'', ''c.pdf''],
      current_skill_name = Some ''b.pdf'',
      current_question = Some ''What is a monad?'',
      current_reference = None,
      skill_progress = [(''a.pdf'', default_skill_data), (''b.pdf'', example_skill),
                        (''c.pdf'', default_skill_data)],
      total_score = 0,
      level_up_occurred = False,
      worker = Some (AIWorker True),
      question_display = ''What is a monad?'',
      feedback_display = [],
      feedback_style = ''default'',
      view_reference_button_enabled = False,
      buttons_state = ''question'',
      answer_entry_enabled = False,
      int_max_str_digits = 4300\<rparr>"

text \<open>The same application in the combined review of all materials.\<close>

definition review_state :: app_state where
  "review_state = example_state\<lparr>current_skill_name := Some ALL_MATERIALS_SKILL_NAME\<rparr>"

section \<open>Frame lemmas\<close>

lemma display_feedback_frame:
  "skill_progress (display_feedback st t f) = skill_progress st"
  "total_score (display_feedback st t f) = total_score st"
  "current_skill_name (display_feedback st t f) = current_skill_name st"
  "worker (display_feedback st t f) = worker st"
  "pdf_file_paths (display_feedback st t f) = pdf_file_paths st"
  "pdf_file_basenames (display_feedback st t f) = pdf_file_basenames st"
  "int_max_str_digits (display_feedback st t f) = int_max_str_digits st"
  by (simp_all add: display_feedback_def set_feedback_def Let_def split: option.splits prod.splits)

lemma assign_in_place_frame:
  "current_skill_name (assign_in_place st x) = current_skill_name st"
  "worker (assign_in_place st x) = worker st"
  by (simp_all add: assign_in_place_def split: option.splits)

lemma update_current_skill_data_frame:
  "current_skill_name (update_current_skill_data st x) = current_skill_name st"
  "worker (update_current_skill_data st x) = worker st"
  by (simp_all add: update_current_skill_data_def recalculate_total_score_def split: option.splits)

lemma status_branch_frame:
  "current_skill_name (snd (status_branch st fl)) = current_skill_name st"
  "worker (snd (status_branch st fl)) = worker st"
  by (simp_all add: status_branch_def assign_in_place_frame Let_def)

lemma update_skill_frame:
  "current_skill_name (state_of (update_skill st g)) = current_skill_name st"
  "worker (state_of (update_skill st g)) = worker st"
  by (simp_all add: update_skill_def assign_in_place_frame update_current_skill_data_frame Let_def)

lemma handle_submit_answer_state:
  "state_of (handle_submit_answer st t) =
     (let st1 = snd (status_branch (st\<lparr>level_up_occurred := False\<rparr>) (lower t));
          r = (if \<not> is_all_materials_mode st then update_skill st1 (grade_of st t) else Returned st1)
      in case r of
           Raised e st2 \<Rightarrow> st2
         | Returned st2 \<Rightarrow>
             set_buttons_state
               ((display_feedback st2 t (feedback_type (grade_of st t)))\<lparr>current_question := None\<rparr>)
               ''feedback'')"
proof -
  obtain g st1 where sb: "status_branch (st\<lparr>level_up_occurred := False\<rparr>) (lower t) = (g, st1)"
    by (cases "status_branch (st\<lparr>level_up_occurred := False\<rparr>) (lower t)")
  have m: "is_all_materials_mode st1 = is_all_materials_mode st"
    using status_branch_frame(1) [of "st\<lparr>level_up_occurred := False\<rparr>" "lower t"] sb
    by (simp add: is_all_materials_mode_def)
  show ?thesis
    by (simp add: handle_submit_answer_def grade_of_def sb m Let_def split: slot_result.splits)
qed

lemma submit_progress:
  "skill_progress (state_of (handle_submit_answer st t)) =
     (if is_all_materials_mode st then skill_progress st
      else skill_progress (state_of (update_skill
             (snd (status_branch (st\<lparr>level_up_occurred := False\<rparr>) (lower t))) (grade_of st t))))"
proof (cases "is_all_materials_mode st")
  case True
  then have "snd (status_branch (st\<lparr>level_up_occurred := False\<rparr>) (lower t))
             = st\<lparr>level_up_occurred := False\<rparr>"
    by (simp add: status_branch_def is_all_materials_mode_def)
  with True show ?thesis
    by (simp add: handle_submit_answer_state set_buttons_state_def display_feedback_frame Let_def)
next
  case False
  then show ?thesis
    by (cases "update_skill (snd (status_branch (st\<lparr>level_up_occurred := False\<rparr>) (lower t)))
                 (grade_of st t)")
       (simp_all add: handle_submit_answer_state set_buttons_state_def display_feedback_frame Let_def)
qed

lemma handle_submit_answer_frame:
  "current_skill_name (state_of (handle_submit_answer st t)) = current_skill_name st"
  "worker (state_of (handle_submit_answer st t)) = worker st"
proof -
  let ?st1 = "snd (status_branch (st\<lparr>level_up_occurred := False\<rparr>) (lower t))"
  have f1: "current_skill_name ?st1 = current_skill_name st" "worker ?st1 = worker st"
    by (simp_all add: status_branch_frame)
  show "current_skill_name (state_of (handle_submit_answer st t)) = current_skill_name st"
    using f1 update_skill_frame(1) [of ?st1 "grade_of st t"]
    by (cases "update_skill ?st1 (grade_of st t)")
       (simp_all add: handle_submit_answer_state set_buttons_state_def display_feedback_frame Let_def)
  show "worker (state_of (handle_submit_answer st t)) = worker st"
    using f1 update_skill_frame(2) [of ?st1 "grade_of st t"]
    by (cases "update_skill ?st1 (grade_of st t)")
       (simp_all add: handle_submit_answer_state set_buttons_state_def display_feedback_frame Let_def)
qed

lemma handle_ai_result_submit:
  "handle_ai_result st ''submit_answer'' t =
     (if ai_worker_running st then handle_submit_answer st t else Returned st)"
  by (simp add: handle_ai_result_def)

lemma submit_frame:
  "current_skill_name (state_of (handle_ai_result st ''submit_answer'' t)) = current_skill_name st"
  "worker (state_of (handle_ai_result st ''submit_answer'' t)) = worker st"
  by (simp_all add: handle_ai_result_submit handle_submit_answer_frame)

section \<open>The entry of the current skill\<close>

lemma get_stored:
  assumes "current_skill_name st = Some n" "n \<noteq> []" "n \<noteq> ALL_MATERIALS_SKILL_NAME"
    "map_of (skill_progress st) n = Some d"
  shows "get_current_skill_data st = d"
  using assms by (simp add: get_current_skill_data_def)

lemma assign_stored:
  assumes "current_skill_name st = Some n" "n \<noteq> []" "n \<noteq> ALL_MATERIALS_SKILL_NAME"
    "map_of (skill_progress st) n = Some d"
  shows "assign_in_place st x = st\<lparr>skill_progress := AList.update n x (skill_progress st)\<rparr>"
  using assms by (simp add: assign_in_place_def has_stored_skill_data_def)

lemma update_stored:
  assumes "current_skill_name st = Some n" "n \<noteq> []" "n \<noteq> ALL_MATERIALS_SKILL_NAME"
  shows "map_of (skill_progress (update_current_skill_data st x)) = (map_of (skill_progress st))(n \<mapsto> x)"
  using assms by (simp add: update_current_skill_data_def recalculate_total_score_def update_conv')

lemma assign_other:
  assumes "\<not> (current_skill_name st = Some m \<and> m \<noteq> [] \<and> m \<noteq> ALL_MATERIALS_SKILL_NAME)"
  shows "map_of (skill_progress (assign_in_place st x)) m = map_of (skill_progress st) m"
  using assms
  by (auto simp add: assign_in_place_def has_stored_skill_data_def update_conv' split: option.splits)

lemma update_other:
  assumes "\<not> (current_skill_name st = Some m \<and> m \<noteq> [] \<and> m \<noteq> ALL_MATERIALS_SKILL_NAME)"
  shows "map_of (skill_progress (update_current_skill_data st x)) m = map_of (skill_progress st) m"
  using assms
  by (auto simp add: update_current_skill_data_def recalculate_total_score_def update_conv'
      split: option.splits)

lemma status_branch_other:
  assumes "\<not> (current_skill_name st = Some m \<and> m \<noteq> [] \<and> m \<noteq> ALL_MATERIALS_SKILL_NAME)"
  shows "map_of (skill_progress (snd (status_branch st fl))) m = map_of (skill_progress st) m"
  using assms by (simp add: status_branch_def Let_def assign_other)

lemma update_skill_other:
  assumes "\<not> (current_skill_name st = Some m \<and> m \<noteq> [] \<and> m \<noteq> ALL_MATERIALS_SKILL_NAME)"
  shows "map_of (skill_progress (state_of (update_skill st g))) m = map_of (skill_progress st) m"
proof -
  have u: "map_of (skill_progress (update_current_skill_data
             ((assign_in_place st x)\<lparr>level_up_occurred := b\<rparr>) y)) m = map_of (skill_progress st) m"
    for x y b
    using assms assign_other [OF assms, of x]
    by (simp add: update_other assign_in_place_frame)
  show ?thesis
    by (simp add: update_skill_def Let_def u assign_other [OF assms])
qed

lemma submit_other:
  assumes "\<not> (ai_worker_running st \<and> current_skill_name st = Some m \<and> m \<noteq> []
            \<and> m \<noteq> ALL_MATERIALS_SKILL_NAME)"
  shows "map_of (skill_progress (state_of (handle_ai_result st ''submit_answer'' t))) m
         = map_of (skill_progress st) m"
proof (cases "ai_worker_running st")
  case False
  then show ?thesis by (simp add: handle_ai_result_submit)
next
  case True
  with assms have c: "\<not> (current_skill_name st = Some m \<and> m \<noteq> [] \<and> m \<noteq> ALL_MATERIALS_SKILL_NAME)"
    by simp
  let ?st0 = "st\<lparr>level_up_occurred := False\<rparr>"
  have c0: "\<not> (current_skill_name ?st0 = Some m \<and> m \<noteq> [] \<and> m \<noteq> ALL_MATERIALS_SKILL_NAME)"
    using c by simp
  have c1: "\<not> (current_skill_name (snd (status_branch ?st0 (lower t))) = Some m \<and> m \<noteq> []
              \<and> m \<noteq> ALL_MATERIALS_SKILL_NAME)"
    using c by (simp add: status_branch_frame)
  have "map_of (skill_progress (state_of (update_skill (snd (status_branch ?st0 (lower t)))
           (grade_of st t)))) m = map_of (skill_progress ?st0) m"
    using update_skill_other [OF c1] status_branch_other [OF c0] by simp
  then show ?thesis
    using True by (simp add: handle_ai_result_submit submit_progress)
qed

lemma status_branch_stored:
  assumes "current_skill_name st = Some n" "n \<noteq> []" "n \<noteq> ALL_MATERIALS_SKILL_NAME"
    "map_of (skill_progress st) n = Some d"
  shows "points_earned (fst (status_branch st fl)) =
          (if startswith fl ''status: correct''
           then POINTS_CORRECT + (streak d + 1) * STREAK_BONUS_MULTIPLIER
           else if startswith fl ''status: partially correct'' then POINTS_PARTIAL else 0)"
    and "streak_broken (fst (status_branch st fl)) = (\<not> startswith fl ''status: correct'')"
    and "map_of (skill_progress (snd (status_branch st fl))) n =
          Some (if startswith fl ''status: correct'' then d\<lparr>streak := streak d + 1\<rparr> else d)"
  using assms
  by (simp_all add: status_branch_def is_all_materials_mode_def get_current_skill_data_def
      assign_in_place_def has_stored_skill_data_def Let_def update_conv')

lemma update_skill_stored:
  assumes "current_skill_name st = Some n" "n \<noteq> []" "n \<noteq> ALL_MATERIALS_SKILL_NAME"
    "map_of (skill_progress st) n = Some d"
  shows "\<exists>d'. map_of (skill_progress (state_of (update_skill st g))) n = Some d'
     \<and> score d' = score d + points_earned g
     \<and> questions_answered d' = questions_answered d + 1
     \<and> streak d' = (if streak_broken g then 0 else streak d)
     \<and> current_difficulty_index d' =
         (if 0 < questions_answered d + 1
             \<and> (questions_answered d + 1) mod QUESTIONS_PER_LEVEL_UP = 0
             \<and> 0 < points_earned g
             \<and> current_difficulty_index d < int (length DIFFICULTY_LEVELS) - 1
          then current_difficulty_index d + 1 else current_difficulty_index d)
     \<and> (- 4 \<le> current_difficulty_index d \<longrightarrow>
          level d' = max (level d) (1 + score d' div LEVEL_UP_THRESHOLD))"
proof -
  have a: "assign_in_place st x = st\<lparr>skill_progress := AList.update n x (skill_progress st)\<rparr>" for x
    using assms by (rule assign_stored)
  have u: "map_of (skill_progress (update_current_skill_data
             (st\<lparr>skill_progress := AList.update n x (skill_progress st), level_up_occurred := b\<rparr>) y)) n = Some y" for x y b
    using assms(1-3) by (simp add: update_stored)
  show ?thesis
    unfolding update_skill_def get_stored [OF assms] a
    by (auto simp add: Let_def u update_conv' index_in_range_def DIFFICULTY_LEVELS_def max_def)
qed

lemma submit_stored:
  assumes "ai_worker_running st" "current_skill_name st = Some n" "n \<noteq> []"
    "n \<noteq> ALL_MATERIALS_SKILL_NAME" "map_of (skill_progress st) n = Some d"
  shows "\<exists>d'. map_of (skill_progress (state_of (handle_ai_result st ''submit_answer'' t))) n = Some d'
     \<and> score d' = score d + points_earned (grade_of st t)
     \<and> questions_answered d' = questions_answered d + 1
     \<and> streak d' = (if startswith (lower t) ''status: correct'' then streak d + 1 else 0)
     \<and> current_difficulty_index d' =
         (if 0 < questions_answered d + 1
             \<and> (questions_answered d + 1) mod QUESTIONS_PER_LEVEL_UP = 0
             \<and> 0 < points_earned (grade_of st t)
             \<and> current_difficulty_index d < int (length DIFFICULTY_LEVELS) - 1
          then current_difficulty_index d + 1 else current_difficulty_index d)
     \<and> (- 4 \<le> current_difficulty_index d \<longrightarrow>
          level d' = max (level d) (1 + score d' div LEVEL_UP_THRESHOLD))"
proof -
  let ?st0 = "st\<lparr>level_up_occurred := False\<rparr>"
  let ?st1 = "snd (status_branch ?st0 (lower t))"
  let ?d1 = "if startswith (lower t) ''status: correct'' then d\<lparr>streak := streak d + 1\<rparr> else d"
  have h0: "current_skill_name ?st0 = Some n" "map_of (skill_progress ?st0) n = Some d"
    using assms by simp_all
  have b: "streak_broken (grade_of st t) = (\<not> startswith (lower t) ''status: correct'')"
    unfolding grade_of_def by (rule status_branch_stored(2) [OF h0(1) assms(3,4) h0(2)])
  have m1: "map_of (skill_progress ?st1) n = Some ?d1"
    by (rule status_branch_stored(3) [OF h0(1) assms(3,4) h0(2)])
  have c1: "current_skill_name ?st1 = Some n"
    using assms(2) by (simp add: status_branch_frame)
  have na: "\<not> is_all_materials_mode st"
    using assms by (simp add: is_all_materials_mode_def)
  have eq: "skill_progress (state_of (handle_ai_result st ''submit_answer'' t))
            = skill_progress (state_of (update_skill ?st1 (grade_of st t)))"
    using assms(1) na by (simp add: handle_ai_result_submit submit_progress)
  from update_skill_stored [OF c1 assms(3,4) m1, of "grade_of st t"]
  show ?thesis unfolding eq b by (auto split: if_splits)
qed

lemma grade_of_stored:
  assumes "current_skill_name st = Some n" "n \<noteq> []" "n \<noteq> ALL_MATERIALS_SKILL_NAME"
    "map_of (skill_progress st) n = Some d"
  shows "points_earned (grade_of st t) =
          (if startswith (lower t) ''status: correct''
           then POINTS_CORRECT + (streak d + 1) * STREAK_BONUS_MULTIPLIER
           else if startswith (lower t) ''status: partially correct'' then POINTS_PARTIAL else 0)"
  unfolding grade_of_def
  using status_branch_stored(1) [of "st\<lparr>level_up_occurred := False\<rparr>" n d "lower t"] assms
  by simp

lemma grade_of_feedback_type:
  "feedback_type (grade_of st t) =
     (if startswith (lower t) ''status: correct'' then ''correct''
      else if startswith (lower t) ''status: partially correct'' then ''partial''
      else if startswith (lower t) ''status: incorrect'' then ''incorrect''
      else ''default'')"
  by (simp add: grade_of_def status_branch_def Let_def)

section \<open>Facts about the example states\<close>

lemma example_state_facts:
  "ai_worker_running example_state"
  "current_skill_name example_state = Some ''b.pdf''"
  "''b.pdf'' \<noteq> []"
  "''b.pdf'' \<noteq> ALL_MATERIALS_SKILL_NAME"
  "map_of (skill_progress example_state) ''b.pdf'' = Some example_skill"
  by (simp_all add: example_state_def ai_worker_running_def ALL_MATERIALS_SKILL_NAME_def)

lemma lower_status_correct: "lower ''Status: Correct'' = ''status: correct''"
  by code_simp

section \<open>C1: points of a correct answer\<close>

text \<open>
  C1, as stated, fails: the claim computes the streak bonus from the streak before the
  increment, so that a first correct answer earns 10 points. The handler increments the
  streak first and multiplies the incremented value: from score 0, streak 0, level 1,
  4 answered questions and difficulty 0, the response \<open>Status: Correct\<close> earns 12 points
  and leaves score 12, streak 1, level 1 and 5 answered questions.
\<close>

theorem correct_grade_bonus_counterexample:
  "map_of (skill_progress example_state) ''b.pdf'' = Some example_skill
   \<and> streak example_skill = 0
   \<and> points_earned (grade_of example_state ''Status: Correct'') = 12
   \<and> points_earned (grade_of example_state ''Status: Correct'')
       \<noteq> POINTS_CORRECT + streak example_skill * STREAK_BONUS_MULTIPLIER
   \<and> map_of (skill_progress (state_of (handle_ai_result example_state ''submit_answer''
         ''Status: Correct''))) ''b.pdf''
       = Some \<lparr>score = 12, streak = 1, level = 1, questions_answered = 5,
               current_difficulty_index = 1\<rparr>"
proof -
  have p: "points_earned (grade_of example_state ''Status: Correct'') = 12"
    using grade_of_stored [OF example_state_facts(2-5), of "''Status: Correct''"]
    by (simp add: lower_status_correct example_skill_def POINTS_CORRECT_def
        STREAK_BONUS_MULTIPLIER_def)
  obtain d' where d': "map_of (skill_progress (state_of (handle_ai_result example_state
        ''submit_answer'' ''Status: Correct''))) ''b.pdf'' = Some d'"
    and f: "score d' = 12" "questions_answered d' = 5" "streak d' = 1"
      "current_difficulty_index d' = 1" "level d' = 1"
    using submit_stored [OF example_state_facts, of "''Status: Correct''"]
    by (auto simp add: p lower_status_correct example_skill_def QUESTIONS_PER_LEVEL_UP_def
        DIFFICULTY_LEVELS_def LEVEL_UP_THRESHOLD_def)
  have "d' = \<lparr>score = 12, streak = 1, level = 1, questions_answered = 5,
              current_difficulty_index = 1\<rparr>"
    using f by (cases d') simp
  then show ?thesis
    using d' p
    by (simp add: example_state_facts example_skill_def POINTS_CORRECT_def
        STREAK_BONUS_MULTIPLIER_def)
qed

text \<open>
  C1, amended: for an individual skill with a stored entry whose streak is \<open>s\<close>, a
  correct grade first raises the streak to \<open>s + 1\<close> and then earns
  \<open>POINTS_CORRECT + (s + 1) * STREAK_BONUS_MULTIPLIER\<close> points, which are added to the
  score, and the number of answered questions grows by one. From score 0, streak 0,
  level 1, 4 answered questions and difficulty 0 this gives 12 points, score 12,
  streak 1, 5 answered questions and level 1.
\<close>

theorem correct_grade_points:
  assumes "ai_worker_running st" "current_skill_name st = Some n" "n \<noteq> []"
    "n \<noteq> ALL_MATERIALS_SKILL_NAME" "map_of (skill_progress st) n = Some d"
    "startswith (lower t) ''status: correct''"
  shows "points_earned (grade_of st t)
           = POINTS_CORRECT + (streak d + 1) * STREAK_BONUS_MULTIPLIER
     \<and> (\<exists>d'. map_of (skill_progress (state_of (handle_ai_result st ''submit_answer'' t))) n
               = Some d'
            \<and> streak d' = streak d + 1
            \<and> score d' = score d + (POINTS_CORRECT + (streak d + 1) * STREAK_BONUS_MULTIPLIER)
            \<and> questions_answered d' = questions_answered d + 1
            \<and> (score d = 0 \<and> streak d = 0 \<and> level d = 1 \<and> questions_answered d = 4
                 \<and> current_difficulty_index d = 0
               \<longrightarrow> points_earned (grade_of st t) = 12 \<and> score d' = 12 \<and> streak d' = 1
                   \<and> questions_answered d' = 5 \<and> level d' = 1))"
proof -
  have p: "points_earned (grade_of st t)
           = POINTS_CORRECT + (streak d + 1) * STREAK_BONUS_MULTIPLIER"
    using grade_of_stored [OF assms(2-5), of t] assms(6) by simp
  from submit_stored [OF assms(1-5), of t] obtain d' where
    d': "map_of (skill_progress (state_of (handle_ai_result st ''submit_answer'' t))) n = Some d'"
    and f: "score d' = score d + points_earned (grade_of st t)"
      "questions_answered d' = questions_answered d + 1"
      "streak d' = streak d + 1"
      "- 4 \<le> current_difficulty_index d \<longrightarrow>
          level d' = max (level d) (1 + score d' div LEVEL_UP_THRESHOLD)"
    using assms(6) by auto
  have "score d = 0 \<and> streak d = 0 \<and> level d = 1 \<and> questions_answered d = 4
          \<and> current_difficulty_index d = 0
        \<longrightarrow> points_earned (grade_of st t) = 12 \<and> score d' = 12 \<and> streak d' = 1
            \<and> questions_answered d' = 5 \<and> level d' = 1"
    using f p by (simp add: POINTS_CORRECT_def STREAK_BONUS_MULTIPLIER_def LEVEL_UP_THRESHOLD_def)
  then show ?thesis using d' f p by auto
qed

text \<open>C1, amended, at the example state with the response \<open>Status: Correct\<close>.\<close>

theorem correct_grade_points_witness:
  "ai_worker_running example_state \<and> current_skill_name example_state = Some ''b.pdf''
   \<and> map_of (skill_progress example_state) ''b.pdf'' = Some example_skill
   \<and> startswith (lower ''Status: Correct'') ''status: correct''
   \<and> points_earned (grade_of example_state ''Status: Correct'') = 12
   \<and> (\<exists>d'. map_of (skill_progress (state_of (handle_ai_result example_state ''submit_answer''
               ''Status: Correct''))) ''b.pdf'' = Some d'
          \<and> score d' = 12 \<and> streak d' = 1 \<and> questions_answered d' = 5 \<and> level d' = 1)"
proof -
  have s: "startswith (lower ''Status: Correct'') ''status: correct''"
    by (simp add: lower_status_correct)
  have e: "score example_skill = 0 \<and> streak example_skill = 0 \<and> level example_skill = 1
           \<and> questions_answered example_skill = 4 \<and> current_difficulty_index example_skill = 0"
    by (simp add: example_skill_def)
  from correct_grade_points [OF example_state_facts s] e
  show ?thesis using example_state_facts s by auto
qed

section \<open>One graded answer, any entry\<close>

lemma ai_worker_running_submit:
  "ai_worker_running (state_of (handle_ai_result st ''submit_answer'' t)) = ai_worker_running st"
  by (simp add: ai_worker_running_def submit_frame)

lemma grade_of_points_nonneg:
  assumes "current_skill_name st = Some n" "n \<noteq> []" "n \<noteq> ALL_MATERIALS_SKILL_NAME"
    "map_of (skill_progress st) n = Some d" "0 \<le> streak d"
  shows "0 \<le> points_earned (grade_of st t)"
  using grade_of_stored [OF assms(1-4), of t] assms(5)
  by (simp add: POINTS_CORRECT_def POINTS_PARTIAL_def STREAK_BONUS_MULTIPLIER_def)

lemma submit_level_step:
  assumes "map_of (skill_progress st) n = Some d" "0 \<le> streak d"
    "0 \<le> current_difficulty_index d" "level d = 1 + score d div LEVEL_UP_THRESHOLD"
  shows "\<exists>d'. map_of (skill_progress (state_of (handle_ai_result st ''submit_answer'' t))) n = Some d'
           \<and> 0 \<le> streak d' \<and> 0 \<le> current_difficulty_index d' \<and> score d \<le> score d'
           \<and> level d' = 1 + score d' div LEVEL_UP_THRESHOLD"
proof (cases "ai_worker_running st \<and> current_skill_name st = Some n \<and> n \<noteq> []
              \<and> n \<noteq> ALL_MATERIALS_SKILL_NAME")
  case True
  then have h: "ai_worker_running st" "current_skill_name st = Some n" "n \<noteq> []"
    "n \<noteq> ALL_MATERIALS_SKILL_NAME" by simp_all
  have p: "0 \<le> points_earned (grade_of st t)"
    by (rule grade_of_points_nonneg [OF h(2-4) assms(1,2)])
  from submit_stored [OF h assms(1), of t] obtain d' where
    d': "map_of (skill_progress (state_of (handle_ai_result st ''submit_answer'' t))) n = Some d'"
    and sc: "score d' = score d + points_earned (grade_of st t)"
    and sk: "streak d' = (if startswith (lower t) ''status: correct'' then streak d + 1 else 0)"
    and di: "current_difficulty_index d \<le> current_difficulty_index d'"
    and lv: "- 4 \<le> current_difficulty_index d \<longrightarrow>
               level d' = max (level d) (1 + score d' div LEVEL_UP_THRESHOLD)"
    by (auto split: if_splits)
  have mono: "score d div LEVEL_UP_THRESHOLD \<le> score d' div LEVEL_UP_THRESHOLD"
    using sc p by (simp add: LEVEL_UP_THRESHOLD_def zdiv_mono1)
  have "level d' = 1 + score d' div LEVEL_UP_THRESHOLD"
    using lv assms(3,4) mono by (simp add: max_def)
  then show ?thesis using d' sc sk di p assms(2,3) by auto
next
  case False
  then have "map_of (skill_progress (state_of (handle_ai_result st ''submit_answer'' t))) n
             = Some d"
    using submit_other [of st n t] assms(1) by simp
  then show ?thesis using assms by simp
qed

lemma submit_difficulty_step:
  assumes "map_of (skill_progress st) n = Some d"
  shows "\<exists>d'. map_of (skill_progress (state_of (handle_ai_result st ''submit_answer'' t))) n = Some d'
           \<and> current_difficulty_index d \<le> current_difficulty_index d'
           \<and> (current_difficulty_index d \<le> int (length DIFFICULTY_LEVELS) - 1
                \<longrightarrow> current_difficulty_index d' \<le> int (length DIFFICULTY_LEVELS) - 1)"
proof (cases "ai_worker_running st \<and> current_skill_name st = Some n \<and> n \<noteq> []
              \<and> n \<noteq> ALL_MATERIALS_SKILL_NAME")
  case True
  then have h: "ai_worker_running st" "current_skill_name st = Some n" "n \<noteq> []"
    "n \<noteq> ALL_MATERIALS_SKILL_NAME" by simp_all
  from submit_stored [OF h assms(1), of t] show ?thesis
    by (auto split: if_splits)
next
  case False
  then have "map_of (skill_progress (state_of (handle_ai_result st ''submit_answer'' t))) n
             = Some d"
    using submit_other [of st n t] assms(1) by simp
  then show ?thesis by simp
qed

section \<open>C2: the level follows the score\<close>

text \<open>
  C2: a skill entry of the data model (streak and difficulty index not negative) with
  \<open>level = 1 + score div LEVEL_UP_THRESHOLD\<close> satisfies the same equation after any
  sequence of graded answers, whatever the responses are and whichever skill is being
  quizzed; its score never decreases on the way.
\<close>

theorem level_invariant_preserved:
  assumes "map_of (skill_progress st) n = Some d" "0 \<le> streak d"
    "0 \<le> current_difficulty_index d" "level d = 1 + score d div LEVEL_UP_THRESHOLD"
  shows "\<exists>d'. map_of (skill_progress (grade_all st ts)) n = Some d'
           \<and> 0 \<le> streak d' \<and> 0 \<le> current_difficulty_index d' \<and> score d \<le> score d'
           \<and> level d' = 1 + score d' div LEVEL_UP_THRESHOLD"
  using assms
proof (induction ts arbitrary: st d)
  case Nil
  then show ?case by simp
next
  case (Cons t ts)
  from submit_level_step [OF Cons.prems, of t] obtain d1 where
    d1: "map_of (skill_progress (state_of (handle_ai_result st ''submit_answer'' t))) n = Some d1"
    and v1: "0 \<le> streak d1" "0 \<le> current_difficulty_index d1"
      "level d1 = 1 + score d1 div LEVEL_UP_THRESHOLD"
    and m1: "score d \<le> score d1"
    by blast
  from Cons.IH [OF d1 v1] obtain d' where
    "map_of (skill_progress (grade_all (state_of (handle_ai_result st ''submit_answer'' t)) ts)) n
       = Some d'"
    "0 \<le> streak d'" "0 \<le> current_difficulty_index d'" "score d1 \<le> score d'"
    "level d' = 1 + score d' div LEVEL_UP_THRESHOLD"
    by blast
  with m1 show ?case by auto
qed

text \<open>C2 at the example state, with a correct, a partially correct and an unclear response.\<close>

theorem level_invariant_preserved_witness:
  "map_of (skill_progress example_state) ''b.pdf'' = Some example_skill
   \<and> 0 \<le> streak example_skill \<and> 0 \<le> current_difficulty_index example_skill
   \<and> level example_skill = 1 + score example_skill div LEVEL_UP_THRESHOLD
   \<and> (\<exists>d'. map_of (skill_progress (grade_all example_state
               [''Status: Correct'', ''status: partially correct, see notes'',
                ''I think it's fine''])) ''b.pdf'' = Some d'
          \<and> 0 \<le> streak d' \<and> 0 \<le> current_difficulty_index d' \<and> score example_skill \<le> score d'
          \<and> level d' = 1 + score d' div LEVEL_UP_THRESHOLD)"
proof -
  have v: "0 \<le> streak example_skill" "0 \<le> current_difficulty_index example_skill"
    "level example_skill = 1 + score example_skill div LEVEL_UP_THRESHOLD"
    by (simp_all add: example_skill_def LEVEL_UP_THRESHOLD_def)
  from level_invariant_preserved [OF example_state_facts(5) v]
  show ?thesis using example_state_facts(5) v by blast
qed

section \<open>C5: the difficulty index\<close>

text \<open>
  C5: a graded answer on an individual skill raises the difficulty index by exactly one
  if and only if the number of answered questions, after its increment, is a positive
  multiple of \<open>QUESTIONS_PER_LEVEL_UP\<close>, the points earned are positive and the index is
  below \<open>len(DIFFICULTY_LEVELS) - 1\<close>; otherwise the index stays. Over any sequence of
  graded answers the index of every entry does not decrease, and does not exceed
  \<open>len(DIFFICULTY_LEVELS) - 1\<close> when it did not before.
\<close>

theorem difficulty_step:
  assumes "map_of (skill_progress st) n = Some d"
  shows "(ai_worker_running st \<and> current_skill_name st = Some n \<and> n \<noteq> []
            \<and> n \<noteq> ALL_MATERIALS_SKILL_NAME
          \<longrightarrow> (\<exists>d'. map_of (skill_progress (state_of (handle_ai_result st ''submit_answer'' t))) n
                       = Some d'
                 \<and> questions_answered d' = questions_answered d + 1
                 \<and> (current_difficulty_index d' = current_difficulty_index d + 1
                      \<longleftrightarrow> 0 < questions_answered d'
                          \<and> questions_answered d' mod QUESTIONS_PER_LEVEL_UP = 0
                          \<and> 0 < points_earned (grade_of st t)
                          \<and> current_difficulty_index d < int (length DIFFICULTY_LEVELS) - 1)
                 \<and> (current_difficulty_index d' = current_difficulty_index d
                      \<or> current_difficulty_index d' = current_difficulty_index d + 1)))
     \<and> (\<exists>d'. map_of (skill_progress (grade_all st ts)) n = Some d'
            \<and> current_difficulty_index d \<le> current_difficulty_index d'
            \<and> (current_difficulty_index d \<le> int (length DIFFICULTY_LEVELS) - 1
                 \<longrightarrow> current_difficulty_index d' \<le> int (length DIFFICULTY_LEVELS) - 1))"
proof
  show "ai_worker_running st \<and> current_skill_name st = Some n \<and> n \<noteq> []
            \<and> n \<noteq> ALL_MATERIALS_SKILL_NAME
          \<longrightarrow> (\<exists>d'. map_of (skill_progress (state_of (handle_ai_result st ''submit_answer'' t))) n
                       = Some d'
                 \<and> questions_answered d' = questions_answered d + 1
                 \<and> (current_difficulty_index d' = current_difficulty_index d + 1
                      \<longleftrightarrow> 0 < questions_answered d'
                          \<and> questions_answered d' mod QUESTIONS_PER_LEVEL_UP = 0
                          \<and> 0 < points_earned (grade_of st t)
                          \<and> current_difficulty_index d < int (length DIFFICULTY_LEVELS) - 1)
                 \<and> (current_difficulty_index d' = current_difficulty_index d
                      \<or> current_difficulty_index d' = current_difficulty_index d + 1))"
  proof
    assume a: "ai_worker_running st \<and> current_skill_name st = Some n \<and> n \<noteq> []
            \<and> n \<noteq> ALL_MATERIALS_SKILL_NAME"
    then have h: "ai_worker_running st" "current_skill_name st = Some n" "n \<noteq> []"
      "n \<noteq> ALL_MATERIALS_SKILL_NAME" by simp_all
    from submit_stored [OF h assms, of t] obtain d' where
      d': "map_of (skill_progress (state_of (handle_ai_result st ''submit_answer'' t))) n = Some d'"
      and qa: "questions_answered d' = questions_answered d + 1"
      and di: "current_difficulty_index d' =
         (if 0 < questions_answered d + 1
             \<and> (questions_answered d + 1) mod QUESTIONS_PER_LEVEL_UP = 0
             \<and> 0 < points_earned (grade_of st t)
             \<and> current_difficulty_index d < int (length DIFFICULTY_LEVELS) - 1
          then current_difficulty_index d + 1 else current_difficulty_index d)"
      by blast
    show "\<exists>d'. map_of (skill_progress (state_of (handle_ai_result st ''submit_answer'' t))) n
                       = Some d'
                 \<and> questions_answered d' = questions_answered d + 1
                 \<and> (current_difficulty_index d' = current_difficulty_index d + 1
                      \<longleftrightarrow> 0 < questions_answered d'
                          \<and> questions_answered d' mod QUESTIONS_PER_LEVEL_UP = 0
                          \<and> 0 < points_earned (grade_of st t)
                          \<and> current_difficulty_index d < int (length DIFFICULTY_LEVELS) - 1)
                 \<and> (current_difficulty_index d' = current_difficulty_index d
                      \<or> current_difficulty_index d' = current_difficulty_index d + 1)"
      using d' qa di by (intro exI [of _ d']) (simp split: if_splits)
  qed
next
  show "\<exists>d'. map_of (skill_progress (grade_all st ts)) n = Some d'
            \<and> current_difficulty_index d \<le> current_difficulty_index d'
            \<and> (current_difficulty_index d \<le> int (length DIFFICULTY_LEVELS) - 1
                 \<longrightarrow> current_difficulty_index d' \<le> int (length DIFFICULTY_LEVELS) - 1)"
    using assms
  proof (induction ts arbitrary: st d)
    case Nil
    then show ?case by simp
  next
    case (Cons t ts)
    from submit_difficulty_step [OF Cons.prems, of t] obtain d1 where
      d1: "map_of (skill_progress (state_of (handle_ai_result st ''submit_answer'' t))) n = Some d1"
      and m1: "current_difficulty_index d \<le> current_difficulty_index d1"
        "current_difficulty_index d \<le> int (length DIFFICULTY_LEVELS) - 1
           \<longrightarrow> current_difficulty_index d1 \<le> int (length DIFFICULTY_LEVELS) - 1"
      by blast
    from Cons.IH [OF d1] obtain d' where
      "map_of (skill_progress (grade_all (state_of (handle_ai_result st ''submit_answer'' t)) ts)) n
         = Some d'"
      "current_difficulty_index d1 \<le> current_difficulty_index d'"
      "current_difficulty_index d1 \<le> int (length DIFFICULTY_LEVELS) - 1
           \<longrightarrow> current_difficulty_index d' \<le> int (length DIFFICULTY_LEVELS) - 1"
      by blast
    with m1 show ?case by auto
  qed
qed

text \<open>
  C5 at the example state: the fifth answer is correct, so the index goes from 0 to 1.
\<close>

theorem difficulty_step_witness:
  "map_of (skill_progress example_state) ''b.pdf'' = Some example_skill
   \<and> ai_worker_running example_state \<and> current_skill_name example_state = Some ''b.pdf''
   \<and> ''b.pdf'' \<noteq> [] \<and> ''b.pdf'' \<noteq> ALL_MATERIALS_SKILL_NAME
   \<and> current_difficulty_index example_skill \<le> int (length DIFFICULTY_LEVELS) - 1
   \<and> (\<exists>d'. map_of (skill_progress (state_of (handle_ai_result example_state ''submit_answer''
               ''Status: Correct''))) ''b.pdf'' = Some d'
          \<and> questions_answered d' = 5 \<and> current_difficulty_index d' = 1)
   \<and> (\<exists>d'. map_of (skill_progress (grade_all example_state
               [''Status: Correct'', ''Status: Incorrect''])) ''b.pdf'' = Some d'
          \<and> 0 \<le> current_difficulty_index d' \<and> current_difficulty_index d' \<le> 2)"
proof -
  have p: "points_earned (grade_of example_state ''Status: Correct'') = 12"
    using grade_of_stored [OF example_state_facts(2-5), of "''Status: Correct''"]
    by (simp add: lower_status_correct example_skill_def POINTS_CORRECT_def
        STREAK_BONUS_MULTIPLIER_def)
  have e: "questions_answered example_skill = 4" "current_difficulty_index example_skill = 0"
    "int (length DIFFICULTY_LEVELS) = 3" "QUESTIONS_PER_LEVEL_UP = 5"
    by (simp_all add: example_skill_def DIFFICULTY_LEVELS_def QUESTIONS_PER_LEVEL_UP_def)
  from difficulty_step [OF example_state_facts(5), of "''Status: Correct''"
      "[''Status: Correct'', ''Status: Incorrect'']"]
  show ?thesis
    using example_state_facts p e by auto
qed

section \<open>C6: the streak\<close>

lemma submit_correct_run:
  assumes "ai_worker_running st" "current_skill_name st = Some n" "n \<noteq> []"
    "n \<noteq> ALL_MATERIALS_SKILL_NAME" "map_of (skill_progress st) n = Some d"
    "\<forall>t \<in> set ts. startswith (lower t) ''status: correct''"
  shows "\<exists>d'. map_of (skill_progress (grade_all st ts)) n = Some d'
           \<and> streak d' = streak d + int (length ts)"
  using assms
proof (induction ts arbitrary: st d)
  case Nil
  then show ?case by simp
next
  case (Cons t ts)
  let ?st1 = "state_of (handle_ai_result st ''submit_answer'' t)"
  from submit_stored [OF Cons.prems(1-5), of t] Cons.prems(6) obtain d1 where
    d1: "map_of (skill_progress ?st1) n = Some d1" and s1: "streak d1 = streak d + 1"
    by auto
  have r1: "ai_worker_running ?st1" "current_skill_name ?st1 = Some n"
    using Cons.prems(1,2) by (simp_all add: ai_worker_running_submit submit_frame)
  have a1: "\<forall>t \<in> set ts. startswith (lower t) ''status: correct''"
    using Cons.prems(6) by simp
  from Cons.IH [OF r1 Cons.prems(3,4) d1 a1] obtain d' where
    "map_of (skill_progress (grade_all ?st1 ts)) n = Some d'"
    "streak d' = streak d1 + int (length ts)"
    by blast
  with s1 show ?case by auto
qed

text \<open>
  C6: on an individual skill, a partially correct grade earns \<open>POINTS_PARTIAL\<close> and sets
  the streak to 0; an incorrect and an unclear grade (feedback type \<open>default\<close>) earn
  nothing and set the streak to 0; after \<open>N\<close> correct grades in a row from streak 0 the
  streak is \<open>N\<close>.
\<close>

theorem streak_rules:
  assumes "ai_worker_running st" "current_skill_name st = Some n" "n \<noteq> []"
    "n \<noteq> ALL_MATERIALS_SKILL_NAME" "map_of (skill_progress st) n = Some d"
  shows "(feedback_type (grade_of st t) = ''partial''
          \<longrightarrow> points_earned (grade_of st t) = POINTS_PARTIAL
              \<and> (\<exists>d'. map_of (skill_progress (state_of (handle_ai_result st ''submit_answer'' t))) n
                         = Some d'
                     \<and> streak d' = 0 \<and> score d' = score d + POINTS_PARTIAL))
     \<and> (feedback_type (grade_of st t) = ''incorrect'' \<or> feedback_type (grade_of st t) = ''default''
          \<longrightarrow> points_earned (grade_of st t) = 0
              \<and> (\<exists>d'. map_of (skill_progress (state_of (handle_ai_result st ''submit_answer'' t))) n
                         = Some d'
                     \<and> streak d' = 0 \<and> score d' = score d))
     \<and> (streak d = 0 \<and> (\<forall>r \<in> set ts. feedback_type (grade_of st r) = ''correct'')
          \<longrightarrow> (\<exists>d'. map_of (skill_progress (grade_all st ts)) n = Some d'
                     \<and> streak d' = int (length ts)))"
proof -
  from submit_stored [OF assms, of t] obtain d' where
    d': "map_of (skill_progress (state_of (handle_ai_result st ''submit_answer'' t))) n = Some d'"
    and sc: "score d' = score d + points_earned (grade_of st t)"
    and sk: "streak d' = (if startswith (lower t) ''status: correct'' then streak d + 1 else 0)"
    by blast
  note ft = grade_of_feedback_type [of st t]
  note pe = grade_of_stored [OF assms(2-5), of t]
  have a: "feedback_type (grade_of st t) = ''partial''
          \<longrightarrow> points_earned (grade_of st t) = POINTS_PARTIAL
              \<and> (\<exists>d'. map_of (skill_progress (state_of (handle_ai_result st ''submit_answer'' t))) n
                         = Some d'
                     \<and> streak d' = 0 \<and> score d' = score d + POINTS_PARTIAL)"
    using d' sc sk ft pe by (auto split: if_splits)
  have b: "feedback_type (grade_of st t) = ''incorrect'' \<or> feedback_type (grade_of st t) = ''default''
          \<longrightarrow> points_earned (grade_of st t) = 0
              \<and> (\<exists>d'. map_of (skill_progress (state_of (handle_ai_result st ''submit_answer'' t))) n
                         = Some d'
                     \<and> streak d' = 0 \<and> score d' = score d)"
    using d' sc sk ft pe by (auto split: if_splits)
  have c: "streak d = 0 \<and> (\<forall>r \<in> set ts. feedback_type (grade_of st r) = ''correct'')
          \<longrightarrow> (\<exists>d'. map_of (skill_progress (grade_all st ts)) n = Some d'
                     \<and> streak d' = int (length ts))"
  proof
    assume h: "streak d = 0 \<and> (\<forall>r \<in> set ts. feedback_type (grade_of st r) = ''correct'')"
    have "\<forall>r \<in> set ts. startswith (lower r) ''status: correct''"
    proof
      fix r assume "r \<in> set ts"
      with h have "feedback_type (grade_of st r) = ''correct''" by simp
      then show "startswith (lower r) ''status: correct''"
        using grade_of_feedback_type [of st r] by (auto split: if_splits)
    qed
    from submit_correct_run [OF assms this] h
    show "\<exists>d'. map_of (skill_progress (grade_all st ts)) n = Some d'
                     \<and> streak d' = int (length ts)"
      by auto
  qed
  from a b c show ?thesis by blast
qed

lemma example_responses:
  "startswith (lower ''Status: Correct. Reference: [1]:[4]'') ''status: correct''"
  "\<not> startswith (lower ''status: partially correct, see notes'') ''status: correct''"
  "startswith (lower ''status: partially correct, see notes'') ''status: partially correct''"
  "\<not> startswith (lower ''I think it's fine'') ''status: correct''"
  "\<not> startswith (lower ''I think it's fine'') ''status: partially correct''"
  "\<not> startswith (lower ''I think it's fine'') ''status: incorrect''"
  "startswith (lower ''Status: Correct'') ''status: correct''"
  "\<not> startswith (lower ''Status: Incorrect'') ''status: correct''"
  "\<not> startswith (lower ''Status: Incorrect'') ''status: partially correct''"
  "startswith (lower ''Status: Incorrect'') ''status: incorrect''"
  by code_simp+

text \<open>
  C6 at the example state: a partially correct response, and two correct ones in a row.
\<close>

theorem streak_rules_witness:
  "ai_worker_running example_state \<and> current_skill_name example_state = Some ''b.pdf''
   \<and> ''b.pdf'' \<noteq> [] \<and> ''b.pdf'' \<noteq> ALL_MATERIALS_SKILL_NAME
   \<and> map_of (skill_progress example_state) ''b.pdf'' = Some example_skill
   \<and> feedback_type (grade_of example_state ''status: partially correct, see notes'') = ''partial''
   \<and> points_earned (grade_of example_state ''status: partially correct, see notes'') = 5
   \<and> (\<exists>d'. map_of (skill_progress (state_of (handle_ai_result example_state ''submit_answer''
               ''status: partially correct, see notes''))) ''b.pdf'' = Some d'
          \<and> streak d' = 0 \<and> score d' = 5)
   \<and> streak example_skill = 0
   \<and> feedback_type (grade_of example_state ''Status: Correct'') = ''correct''
   \<and> feedback_type (grade_of example_state ''Status: Correct. Reference: [1]:[4]'') = ''correct''
   \<and> (\<exists>d'. map_of (skill_progress (grade_all example_state
               [''Status: Correct'', ''Status: Correct. Reference: [1]:[4]''])) ''b.pdf'' = Some d'
          \<and> streak d' = 2)"
proof -
  have f: "feedback_type (grade_of example_state ''status: partially correct, see notes'')
           = ''partial''"
    by (simp add: grade_of_feedback_type example_responses)
  have g: "\<forall>r \<in> set [''Status: Correct'', ''Status: Correct. Reference: [1]:[4]''].
         feedback_type (grade_of example_state r) = ''correct''"
    by (simp add: grade_of_feedback_type example_responses)
  have e: "streak example_skill = 0" "score example_skill = 0"
    by (simp_all add: example_skill_def)
  from streak_rules [OF example_state_facts,
      of "''status: partially correct, see notes''"
         "[''Status: Correct'', ''Status: Correct. Reference: [1]:[4]'']"]
  show ?thesis
    using example_state_facts f g e by (auto simp add: POINTS_PARTIAL_def)
qed

section \<open>C3: the status of a response\<close>

lemma feedback_style_display_feedback:
  "feedback_style (display_feedback st t f) = f"
  by (simp add: display_feedback_def set_feedback_def Let_def split: option.splits prod.splits)

lemma handle_submit_answer_returned:
  assumes "handle_submit_answer st t = Returned st'"
  shows "feedback_style st' = feedback_type (grade_of st t)"
proof -
  obtain g st1 where sb: "status_branch (st\<lparr>level_up_occurred := False\<rparr>) (lower t) = (g, st1)"
    by (cases "status_branch (st\<lparr>level_up_occurred := False\<rparr>) (lower t)")
  have g: "grade_of st t = g" by (simp add: grade_of_def sb)
  show ?thesis
    using assms
    by (auto simp add: handle_submit_answer_def sb g Let_def set_buttons_state_def
        feedback_style_display_feedback split: slot_result.splits if_splits)
qed

text \<open>
  C3: the feedback type is decided by the lower-cased response and the three prefixes
  \<open>status: correct\<close>, \<open>status: partially correct\<close>, \<open>status: incorrect\<close>, tested in
  this order, the first that matches winning; without a match the type is \<open>default\<close>
  (unclear), which earns nothing and breaks the streak. When the handler returns, this
  type is the one shown. \<open>Status: Correct. Reference: [1]:[4]\<close> is correct,
  \<open>status: partially correct, see notes\<close> is partial, \<open>I think it's fine\<close> is unclear.
\<close>

theorem status_extraction:
  "feedback_type (grade_of st t) =
     (if startswith (lower t) ''status: correct'' then ''correct''
      else if startswith (lower t) ''status: partially correct'' then ''partial''
      else if startswith (lower t) ''status: incorrect'' then ''incorrect''
      else ''default'')
   \<and> (ai_worker_running st \<and> handle_ai_result st ''submit_answer'' t = Returned st'
        \<longrightarrow> feedback_style st' = feedback_type (grade_of st t))
   \<and> feedback_type (grade_of st ''Status: Correct. Reference: [1]:[4]'') = ''correct''
   \<and> feedback_type (grade_of st ''status: partially correct, see notes'') = ''partial''
   \<and> feedback_type (grade_of st ''I think it's fine'') = ''default''
   \<and> points_earned (grade_of st ''I think it's fine'') = 0
   \<and> streak_broken (grade_of st ''I think it's fine'')"
proof -
  have u: "points_earned (grade_of st ''I think it's fine'') = 0
           \<and> streak_broken (grade_of st ''I think it's fine'')"
    by (simp add: grade_of_def status_branch_def example_responses)
  have r: "ai_worker_running st \<and> handle_ai_result st ''submit_answer'' t = Returned st'
        \<longrightarrow> feedback_style st' = feedback_type (grade_of st t)"
    by (auto simp add: handle_ai_result_submit dest: handle_submit_answer_returned)
  show ?thesis
    using u r by (simp add: grade_of_feedback_type example_responses)
qed

lemma example_submit_returned:
  "handle_ai_result example_state ''submit_answer'' ''Status: Correct. Reference: [1]:[4]''
   = Returned (state_of (handle_ai_result example_state ''submit_answer''
        ''Status: Correct. Reference: [1]:[4]''))"
  by code_simp

text \<open>
  C3 at the example state: the handler returns on \<open>Status: Correct. Reference: [1]:[4]\<close>
  and shows the feedback type \<open>correct\<close>.
\<close>

theorem status_extraction_witness:
  "ai_worker_running example_state
   \<and> handle_ai_result example_state ''submit_answer'' ''Status: Correct. Reference: [1]:[4]''
       = Returned (state_of (handle_ai_result example_state ''submit_answer''
            ''Status: Correct. Reference: [1]:[4]''))
   \<and> feedback_style (state_of (handle_ai_result example_state ''submit_answer''
        ''Status: Correct. Reference: [1]:[4]'')) = ''correct''"
  using status_extraction [of example_state "''Status: Correct. Reference: [1]:[4]''"
      "state_of (handle_ai_result example_state ''submit_answer''
         ''Status: Correct. Reference: [1]:[4]'')"]
    example_submit_returned example_state_facts(1)
  by (simp add: example_responses)

section \<open>C7: the combined review\<close>

lemma save_config_progress_names:
  "ALL_MATERIALS_SKILL_NAME \<notin> fst ` set (save_config_progress st)"
  by (auto simp add: save_config_progress_def)

text \<open>
  C7: in the combined review (\<open>current_skill_name\<close> is \<open>All Materials Review\<close>) a graded
  answer leaves \<open>skill_progress\<close> as it is, so no entry changes in any field; and in no
  state does \<open>save_config\<close> assign a Progress option named \<open>All Materials Review\<close>.
\<close>

theorem review_mode_keeps_progress:
  assumes "current_skill_name st = Some ALL_MATERIALS_SKILL_NAME"
  shows "skill_progress (state_of (handle_ai_result st ''submit_answer'' t)) = skill_progress st
     \<and> ALL_MATERIALS_SKILL_NAME
          \<notin> fst ` set (save_config_progress (state_of (handle_ai_result st ''submit_answer'' t)))
     \<and> ALL_MATERIALS_SKILL_NAME \<notin> fst ` set (save_config_progress any_state)"
  using assms
  by (simp add: handle_ai_result_submit submit_progress is_all_materials_mode_def
      save_config_progress_names)

lemma review_state_facts:
  "current_skill_name review_state = Some ALL_MATERIALS_SKILL_NAME"
  "ai_worker_running review_state"
  "skill_progress review_state = skill_progress example_state"
  "pdf_file_paths review_state = pdf_file_paths example_state"
  by (simp_all add: review_state_def example_state_def ai_worker_running_def)

text \<open>
  C7 at the review state, and \<open>save_config\<close> on a state whose \<open>skill_progress\<close> does have
  an entry named \<open>All Materials Review\<close>.
\<close>

theorem review_mode_keeps_progress_witness:
  "current_skill_name review_state = Some ALL_MATERIALS_SKILL_NAME
   \<and> ai_worker_running review_state
   \<and> skill_progress (state_of (handle_ai_result review_state ''submit_answer''
        ''Status: Correct. Reference: [2]:[7]'')) = skill_progress review_state
   \<and> ALL_MATERIALS_SKILL_NAME
        \<notin> fst ` set (save_config_progress
             (example_state\<lparr>skill_progress :=
                (ALL_MATERIALS_SKILL_NAME, default_skill_data) # skill_progress example_state\<rparr>))"
  using review_mode_keeps_progress [OF review_state_facts(1),
      of "''Status: Correct. Reference: [2]:[7]''"
         "example_state\<lparr>skill_progress :=
            (ALL_MATERIALS_SKILL_NAME, default_skill_data) # skill_progress example_state\<rparr>"]
    review_state_facts
  by simp

section \<open>C9: a failed grade call\<close>

text \<open>
  C9: \<open>_handle_ai_error\<close> leaves \<open>skill_progress\<close> and the total score as they are, for
  every task and in particular for \<open>submit_answer\<close>: no score, streak, level, number of
  answered questions or difficulty index of any skill changes when a grade call fails.
\<close>

theorem failed_grade_keeps_progress:
  "skill_progress (handle_ai_error st task_identifier error_message) = skill_progress st
   \<and> total_score (handle_ai_error st task_identifier error_message) = total_score st
   \<and> skill_progress (handle_ai_error st ''submit_answer'' error_message) = skill_progress st"
  by (simp add: handle_ai_error_def set_buttons_state_def display_feedback_frame Let_def
      split: option.splits worker.splits)

section \<open>Facts about display\_feedback\<close>

lemma display_feedback_reset:
  "display_feedback (st\<lparr>current_reference := r0, view_reference_button_enabled := b0\<rparr>) t f
   = display_feedback st t f"
  by (simp add: display_feedback_def set_feedback_def is_all_materials_mode_def Let_def)

lemma display_feedback_no_match:
  assumes "reference_search t = None"
  shows "current_reference (display_feedback st t f) = None"
    and "\<not> view_reference_button_enabled (display_feedback st t f)"
  using assms by (simp_all add: display_feedback_def set_feedback_def Let_def)

lemma display_feedback_button:
  "view_reference_button_enabled (display_feedback st t f)
   \<longleftrightarrow> (\<exists>r. current_reference (display_feedback st t f) = Some r
            \<and> 0 \<le> doc_index r \<and> doc_index r < int (length (pdf_file_paths st)))"
  by (simp add: display_feedback_def set_feedback_def Let_def split: option.splits prod.splits)

lemma display_feedback_match:
  assumes "reference_search t = Some (g1, g2)"
    "int_of_group (int_max_str_digits st) g1 = Some i"
    "int_of_group (int_max_str_digits st) g2 = Some p"
  shows "current_reference (display_feedback st t f) =
     (let actual_doc_index =
        (if current_skill_name st = Some ALL_MATERIALS_SKILL_NAME then i
         else (case current_skill_name st of
                 None \<Rightarrow> - 1
               | Some n \<Rightarrow> (case list_index (pdf_file_basenames st) n of
                              None \<Rightarrow> - 1 | Some k \<Rightarrow> int k)))
      in if 0 \<le> actual_doc_index \<and> actual_doc_index < int (length (pdf_file_paths st))
         then Some \<lparr>doc_index = actual_doc_index, page = p\<rparr> else None)"
  using assms
  by (simp add: display_feedback_def set_feedback_def is_all_materials_mode_def Let_def
      split: option.splits)


lemma list_index_Some:
  "list_index xs x = Some k \<Longrightarrow> k < length xs \<and> xs ! k = x \<and> (\<forall>j < k. xs ! j \<noteq> x)"
proof (induction xs arbitrary: k)
  case Nil
  then show ?case by simp
next
  case (Cons y ys)
  show ?case
  proof (cases "y = x")
    case True
    with Cons.prems show ?thesis by simp
  next
    case False
    with Cons.prems obtain k' where k': "list_index ys x = Some k'" "k = Suc k'"
      by (auto split: option.splits)
    from Cons.IH [OF k'(1)] False k'(2) show ?thesis
      by (auto simp add: nth_Cons split: nat.splits)
  qed
qed

lemma list_index_None: "list_index xs x = None \<longleftrightarrow> x \<notin> set xs"
  by (induction xs) (auto split: option.splits)

lemma int_of_group_short:
  "int_of_group lim ''1'' = Some 1" "int_of_group lim ''2'' = Some 2"
  "int_of_group lim ''4'' = Some 4" "int_of_group lim ''5'' = Some 5"
  "int_of_group lim ''7'' = Some 7"
  by (auto simp add: int_of_group_def is_digit_def digit_value_def)

lemma example_searches:
  "reference_search ''Reference: 2:5'' = Some (''2'', ''5'')"
  "reference_search ''Reference: [2]:[5]'' = Some (''2'', ''5'')"
  "reference_search ''Reference: [2]:[7]'' = Some (''2'', ''7'')"
  "reference_search ''Reference: [5]:[1]'' = Some (''5'', ''1'')"
  "reference_search ''Status: Correct. Reference: [1]:[4]'' = Some (''1'', ''4'')"
  "reference_search ''Reference: [2]:[7] and Reference: [1]:[4]'' = Some (''2'', ''7'')"
  "reference_search ''I think it's fine'' = None"
  "reference_search ''Reference: [2] : [5]'' = None"
  "reference_search (''Reference:'' @ [CHR 0xA0] @ ''[2]:[5]'') = Some (''2'', ''5'')"
  "reference_search (''Reference:'' @ [CHR 0x85] @ ''2:5'') = Some (''2'', ''5'')"
  by code_simp+

section \<open>C4: remapping and validation of the reference\<close>

text \<open>
  C4: for a response whose reference tag parses to the index \<open>i\<close> and the page \<open>p\<close>:
  in the combined review the document index of the reference is \<open>i\<close> itself; for an
  individual skill \<open>i\<close> is ignored and the index is the position of the current skill's
  name in \<open>pdf_file_basenames\<close>; in both modes the reference is kept only with an index
  in \<open>[0, len(pdf_file_paths) - 1]\<close> and is \<open>None\<close> otherwise. With three documents,
  in the combined review, \<open>[2]:[7]\<close> gives document 2, page 7, and \<open>[5]:[1]\<close> gives no
  reference.
\<close>

theorem reference_remap:
  assumes "reference_search t = Some (g1, g2)"
    "int_of_group (int_max_str_digits st) g1 = Some i"
    "int_of_group (int_max_str_digits st) g2 = Some p"
  shows "(current_skill_name st = Some ALL_MATERIALS_SKILL_NAME
          \<longrightarrow> current_reference (display_feedback st t f)
              = (if 0 \<le> i \<and> i < int (length (pdf_file_paths st))
                 then Some \<lparr>doc_index = i, page = p\<rparr> else None))
     \<and> (current_skill_name st = Some n \<and> n \<noteq> ALL_MATERIALS_SKILL_NAME
          \<longrightarrow> current_reference (display_feedback st t f)
              = (case list_index (pdf_file_basenames st) n of
                   None \<Rightarrow> None
                 | Some k \<Rightarrow> if int k < int (length (pdf_file_paths st))
                             then Some \<lparr>doc_index = int k, page = p\<rparr> else None)
            \<and> (\<forall>r. current_reference (display_feedback st t f) = Some r
                   \<longrightarrow> nat (doc_index r) < length (pdf_file_basenames st)
                       \<and> pdf_file_basenames st ! nat (doc_index r) = n))
     \<and> (\<forall>r. current_reference (display_feedback st t f) = Some r
            \<longrightarrow> 0 \<le> doc_index r \<and> doc_index r < int (length (pdf_file_paths st))
                \<and> page r = p)
     \<and> (current_skill_name st = Some ALL_MATERIALS_SKILL_NAME \<and> length (pdf_file_paths st) = 3
          \<longrightarrow> current_reference (display_feedback st ''Reference: [2]:[7]'' f)
                = Some \<lparr>doc_index = 2, page = 7\<rparr>
              \<and> current_reference (display_feedback st ''Reference: [5]:[1]'' f) = None
              \<and> \<not> view_reference_button_enabled (display_feedback st ''Reference: [5]:[1]'' f))"
proof -
  note m = display_feedback_match [OF assms, of f]
  have a: "current_skill_name st = Some ALL_MATERIALS_SKILL_NAME
          \<longrightarrow> current_reference (display_feedback st t f)
              = (if 0 \<le> i \<and> i < int (length (pdf_file_paths st))
                 then Some \<lparr>doc_index = i, page = p\<rparr> else None)"
    using m by (simp add: Let_def)
  have b1: "current_skill_name st = Some n \<and> n \<noteq> ALL_MATERIALS_SKILL_NAME
          \<longrightarrow> current_reference (display_feedback st t f)
              = (case list_index (pdf_file_basenames st) n of
                   None \<Rightarrow> None
                 | Some k \<Rightarrow> if int k < int (length (pdf_file_paths st))
                             then Some \<lparr>doc_index = int k, page = p\<rparr> else None)"
    using m by (auto simp add: Let_def split: option.splits)
  have b2: "current_skill_name st = Some n \<and> n \<noteq> ALL_MATERIALS_SKILL_NAME
          \<longrightarrow> (\<forall>r. current_reference (display_feedback st t f) = Some r
                   \<longrightarrow> nat (doc_index r) < length (pdf_file_basenames st)
                       \<and> pdf_file_basenames st ! nat (doc_index r) = n)"
    using b1 by (auto split: option.splits if_splits dest: list_index_Some)
  have c: "\<forall>r. current_reference (display_feedback st t f) = Some r
            \<longrightarrow> 0 \<le> doc_index r \<and> doc_index r < int (length (pdf_file_paths st))
                \<and> page r = p"
    using m by (auto simp add: Let_def split: if_splits)
  have d: "current_skill_name st = Some ALL_MATERIALS_SKILL_NAME \<and> length (pdf_file_paths st) = 3
          \<longrightarrow> current_reference (display_feedback st ''Reference: [2]:[7]'' f)
                = Some \<lparr>doc_index = 2, page = 7\<rparr>
              \<and> current_reference (display_feedback st ''Reference: [5]:[1]'' f) = None
              \<and> \<not> view_reference_button_enabled (display_feedback st ''Reference: [5]:[1]'' f)"
    using display_feedback_match [OF example_searches(3) int_of_group_short(2)
        int_of_group_short(5), of st f]
      display_feedback_match [OF example_searches(4) int_of_group_short(4)
        int_of_group_short(1), of st f]
      display_feedback_button [of st "''Reference: [5]:[1]''" f]
    by (simp add: Let_def)
  from a b1 b2 c d show ?thesis by blast
qed

lemma example_state_documents:
  "pdf_file_paths example_state = [''/docs/a.pdf'', ''/docs/b.pdf'', ''/docs/c.pdf'']"
  "pdf_file_basenames example_state = [''a.pdf'', ''b.pdf'', ''c.pdf'']"
  "int_max_str_digits example_state = 4300"
  "pdf_file_basenames review_state = [''a.pdf'', ''b.pdf'', ''c.pdf'']"
  "int_max_str_digits review_state = 4300"
  by (simp_all add: example_state_def review_state_def)

text \<open>
  C4 at the review state, where \<open>[2]:[7]\<close> is kept as document 2, and at the example state,
  where the quiz is on \<open>b.pdf\<close> and the same tag gives document 1.
\<close>

theorem reference_remap_witness:
  "reference_search ''Reference: [2]:[7]'' = Some (''2'', ''7'')
   \<and> int_of_group (int_max_str_digits review_state) ''2'' = Some 2
   \<and> int_of_group (int_max_str_digits review_state) ''7'' = Some 7
   \<and> current_skill_name review_state = Some ALL_MATERIALS_SKILL_NAME
   \<and> length (pdf_file_paths review_state) = 3
   \<and> current_reference (display_feedback review_state ''Reference: [2]:[7]'' ''correct'')
       = Some \<lparr>doc_index = 2, page = 7\<rparr>
   \<and> current_reference (display_feedback review_state ''Reference: [5]:[1]'' ''correct'') = None
   \<and> int_of_group (int_max_str_digits example_state) ''2'' = Some 2
   \<and> int_of_group (int_max_str_digits example_state) ''7'' = Some 7
   \<and> current_skill_name example_state = Some ''b.pdf'' \<and> ''b.pdf'' \<noteq> ALL_MATERIALS_SKILL_NAME
   \<and> current_reference (display_feedback example_state ''Reference: [2]:[7]'' ''correct'')
       = Some \<lparr>doc_index = 1, page = 7\<rparr>
   \<and> pdf_file_basenames example_state ! nat 1 = ''b.pdf''"
proof -
  have l: "length (pdf_file_paths review_state) = 3" "length (pdf_file_paths example_state) = 3"
    by (simp_all add: review_state_facts example_state_documents)
  have k: "list_index (pdf_file_basenames example_state) ''b.pdf'' = Some 1"
    by (simp add: example_state_documents)
  from reference_remap [OF example_searches(3) int_of_group_short(2) int_of_group_short(5),
      where st = review_state and n = ALL_MATERIALS_SKILL_NAME and f = "''correct''"]
    reference_remap [OF example_searches(3) int_of_group_short(2) int_of_group_short(5),
      where st = example_state and n = "''b.pdf''" and f = "''correct''"]
  show ?thesis
    using l k example_searches(3) int_of_group_short review_state_facts(1) example_state_facts
    by (simp add: example_state_documents)
qed

section \<open>C10: the reference and its button\<close>

text \<open>
  C10: \<open>display_feedback\<close> starts from no reference and a disabled button, whatever the
  two were before (its result does not depend on them); when it is done the button is
  enabled if and only if a reference is stored, and then the document index of that
  reference is in \<open>[0, len(pdf_file_paths) - 1]\<close>. A response without a reference tag,
  displayed after any other response, leaves no reference and a disabled button.
\<close>

theorem reference_button_invariant:
  "(view_reference_button_enabled (display_feedback st t f)
      \<longleftrightarrow> (\<exists>r. current_reference (display_feedback st t f) = Some r
               \<and> 0 \<le> doc_index r
               \<and> doc_index r < int (length (pdf_file_paths (display_feedback st t f)))))
   \<and> display_feedback (st\<lparr>current_reference := r0, view_reference_button_enabled := b0\<rparr>) t f
       = display_feedback st t f
   \<and> (reference_search t = None
        \<longrightarrow> current_reference (display_feedback (display_feedback st t0 f0) t f) = None
            \<and> \<not> view_reference_button_enabled (display_feedback (display_feedback st t0 f0) t f))
   \<and> (current_reference (display_feedback st t f) = None
        \<longrightarrow> \<not> view_reference_button_enabled (display_feedback st t f))"
  using display_feedback_button [of st t f]
    display_feedback_no_match [of t "display_feedback st t0 f0" f]
  by (auto simp add: display_feedback_frame display_feedback_reset)

text \<open>
  C10 at the review state: a response with the tag \<open>[2]:[7]\<close>, then a response without
  a tag.
\<close>

theorem reference_button_invariant_witness:
  "current_reference (display_feedback review_state ''Reference: [2]:[7]'' ''default'')
     = Some \<lparr>doc_index = 2, page = 7\<rparr>
   \<and> view_reference_button_enabled (display_feedback review_state ''Reference: [2]:[7]'' ''default'')
   \<and> reference_search ''I think it's fine'' = None
   \<and> current_reference (display_feedback
        (display_feedback review_state ''Reference: [2]:[7]'' ''default'')
        ''I think it's fine'' ''default'') = None
   \<and> \<not> view_reference_button_enabled (display_feedback
        (display_feedback review_state ''Reference: [2]:[7]'' ''default'')
        ''I think it's fine'' ''default'')"
proof -
  have r: "current_reference (display_feedback review_state ''Reference: [2]:[7]'' ''default'')
           = Some \<lparr>doc_index = 2, page = 7\<rparr>"
    using display_feedback_match [OF example_searches(3) int_of_group_short(2)
        int_of_group_short(5), of review_state "''default''"]
    by (simp add: Let_def review_state_facts example_state_documents)
  from reference_button_invariant [where st = review_state and t = "''Reference: [2]:[7]''"
      and f = "''default''"]
    reference_button_invariant [where st = review_state and t = "''I think it's fine''"
      and f = "''default''" and ?t0.0 = "''Reference: [2]:[7]''" and ?f0.0 = "''default''"]
  show ?thesis
    using r example_searches(7)
    by (simp add: display_feedback_frame review_state_facts example_state_documents)
qed

section \<open>Facts about the search for the reference tag\<close>












section \<open>The scan and the pattern\<close>









section \<open>C8: extraction of the reference\<close>



end
